theory Spec2Isabelle
  imports Main
begin

section \<open>Values shared by the services\<close>

text \<open>
  A Python \<open>str\<close> is the list of its code points, so that \<open>len\<close> is \<open>length\<close> and the
  slice \<open>s[:100]\<close> is \<open>take 100 s\<close>. An ASCII literal of the source is written
  \<open>lit ''...''\<close>; the emoji of the status banners are given by their code points.
\<close>

type_synonym pystr = "nat list"

definition lit :: "string \<Rightarrow> pystr" where
  "lit s = map of_char s"

text \<open>
  A JSON object is the \<open>dict\<close> handed to \<open>json.dumps\<close>: its keys in the order written, with
  string or integer values. A server-sent event \<open>data: <json>\<close> followed by a blank line
  is represented by the object it carries.
\<close>

datatype jval = JStr pystr | JInt int

type_synonym jobject = "(string \<times> jval) list"

text \<open>
  An exception caught by \<open>except Exception\<close> is represented by its message \<open>str(e)\<close>.
\<close>

datatype exn = Exception pystr

fun str :: "exn \<Rightarrow> pystr" where
  "str (Exception m) = m"

subsection \<open>Request models of \<open>backend.py\<close>\<close>

record Message =
  role :: pystr
  content :: pystr

record MultiModalRequest =
  user_id :: pystr
  session_id :: pystr
  message :: pystr
  mode :: pystr
  conversation_history :: "Message list option"

subsection \<open>Values exchanged with the collaborators\<close>

text \<open>
  \<open>user_memories\<close> is the dict \<open>{"memories": memories, "user_id": payload.user_id}\<close> built
  by the orchestrator, or \<open>None\<close>. A tool result is a dict of strings. The routing decision
  is the dict returned by the supervisor.
\<close>

record user_memories =
  um_memories :: "jobject list"
  um_user_id :: pystr

type_synonym snippet = "(string \<times> pystr) list"

record routing_decision =
  recommended_agent :: pystr
  classified_domain :: pystr
  decision_context :: jobject

record memory_record =
  mr_user_id :: pystr
  mr_message :: pystr
  mr_metadata :: jobject

text \<open>
  The prompt of an agent is an f-string template; each constructor stands for one
  template and holds the values interpolated into it, in the order they occur
  (\<open>json.dumps(user_memories or {})\<close> is the last of them).
\<close>

datatype prompt =
    ResearchPrompt pystr pystr "user_memories option"
  | FinancePrompt pystr "snippet list" "user_memories option"
  | TravelPrompt pystr "user_memories option"
  | ShoppingPrompt pystr "snippet list" "user_memories option"
  | JobsPrompt pystr "snippet list" "user_memories option"
  | RecipesPrompt pystr "snippet list" "user_memories option"

subsection \<open>The collaborators\<close>

text \<open>
  \<open>services/tools_service.py\<close> and \<open>services/supervisor_agent.py\<close> are imported by the
  source and are not part of it, and the completion provider is a remote service: what a
  call to them returns or raises is a parameter of the model, a function of the call's
  arguments. \<open>settings.mem0_enabled\<close> is a parameter as well.
\<close>

record env =
  mem0_enabled :: bool
  retrieve_memories :: "pystr \<Rightarrow> nat option \<Rightarrow> exn + jobject list"
  add_memory :: "memory_record \<Rightarrow> exn + unit"
  route :: "pystr \<Rightarrow> pystr \<Rightarrow> Message list \<Rightarrow> user_memories option \<Rightarrow> exn + routing_decision"
  search_news :: "pystr \<Rightarrow> nat \<Rightarrow> exn + snippet list"
  search_jobs :: "pystr \<Rightarrow> nat \<Rightarrow> exn + snippet list"
  search_recipes :: "pystr \<Rightarrow> nat \<Rightarrow> exn + snippet list"
  query_documents :: "pystr \<Rightarrow> exn + snippet list"
  ainvoke :: "prompt \<Rightarrow> exn + pystr"

text \<open>A call made to a collaborator, with its arguments and what it returned or raised.\<close>

datatype call =
    RetrieveMemories pystr "nat option" "exn + jobject list"
  | Route pystr pystr "Message list" "user_memories option" "exn + routing_decision"
  | SearchNews pystr nat "exn + snippet list"
  | SearchJobs pystr nat "exn + snippet list"
  | SearchRecipes pystr nat "exn + snippet list"
  | QueryDocuments pystr "exn + snippet list"
  | Ainvoke prompt "exn + pystr"
  | AddMemory memory_record "exn + unit"

section \<open>Effects of one request\<close>

text \<open>
  The state of a request: the events yielded to the transport so far, the records
  appended to the memory store, the calls made to the collaborators, the local
  variable \<open>full_response\<close> of the orchestrator, and the fragments received by a
  consumer that only collects what a generator yields. A computation returns a value or
  raises, and updates the state.
\<close>

record state =
  emitted :: "jobject list"
  store :: "memory_record list"
  calls :: "call list"
  full_response :: pystr
  yielded :: "pystr list"

type_synonym 'a io = "state \<Rightarrow> (exn + 'a) \<times> state"

definition io_return :: "'a \<Rightarrow> 'a io" where
  "io_return x s = (Inr x, s)"

definition io_raise :: "exn \<Rightarrow> 'a io" where
  "io_raise e s = (Inl e, s)"

definition io_bind :: "'a io \<Rightarrow> ('a \<Rightarrow> 'b io) \<Rightarrow> 'b io" where
  "io_bind m f s = (case m s of (Inl e, s') \<Rightarrow> (Inl e, s') | (Inr x, s') \<Rightarrow> f x s')"

text \<open>\<open>await c r\<close>: the call \<open>c\<close> is made, returns or raises as \<open>r\<close> says, and is logged.\<close>

definition await :: "(exn + 'a \<Rightarrow> call) \<Rightarrow> exn + 'a \<Rightarrow> 'a io" where
  "await c r s = (r, s\<lparr>calls := calls s @ [c r]\<rparr>)"

text \<open>
  Modelled from the spec: \<open>mem0_service.add_memory\<close> lives in
  \<open>services/tools_service.py\<close>, which is missing from the source. It is the Memory
  Store's \<open>append(owner, message, metadata)\<close>: a call that returns has appended exactly
  the record it was given, a call that raises has appended nothing.
\<close>

definition await_add_memory :: "env \<Rightarrow> memory_record \<Rightarrow> unit io" where
  "await_add_memory env r s =
     (case add_memory env r of
        Inl e \<Rightarrow> (Inl e, s\<lparr>calls := calls s @ [AddMemory r (Inl e)]\<rparr>)
      | Inr u \<Rightarrow> (Inr (), s\<lparr>store := store s @ [r], calls := calls s @ [AddMemory r (Inr ())]\<rparr>))"

section \<open>The specialized agents (\<open>services/specialized_agents.py\<close>)\<close>

datatype agent =
  ResearchAgent | FinanceAgent | TravelAgent | ShoppingAgent | JobsAgent | RecipesAgent

fun domain :: "agent \<Rightarrow> pystr" where
  "domain ResearchAgent = lit ''research''"
| "domain FinanceAgent = lit ''finance''"
| "domain TravelAgent = lit ''travel''"
| "domain ShoppingAgent = lit ''shopping''"
| "domain JobsAgent = lit ''jobs''"
| "domain RecipesAgent = lit ''recipes''"

text \<open>The first fragment of every \<open>process\<close>: a status line ending in a newline.\<close>

fun banner :: "agent \<Rightarrow> pystr" where
  "banner ResearchAgent = [0x1F50D] @ lit '' Searching for research information...'' @ [10]"
| "banner FinanceAgent = [0x1F4B0] @ lit '' Analyzing financial information...'' @ [10]"
| "banner TravelAgent = [0x2708, 0xFE0F] @ lit '' Searching for travel options...'' @ [10]"
| "banner ShoppingAgent = [0x1F6CD, 0xFE0F] @ lit '' Finding product recommendations...'' @ [10]"
| "banner JobsAgent = [0x1F4BC] @ lit '' Searching for job opportunities...'' @ [10]"
| "banner RecipesAgent = [0x1F468, 0x1F373] @ lit '' Finding recipes for you...'' @ [10]"

text \<open>\<open>d.get(k, default)\<close> on a dict of strings.\<close>

definition dict_get :: "snippet \<Rightarrow> string \<Rightarrow> pystr \<Rightarrow> pystr" where
  "dict_get d k dflt = (case map_of d k of None \<Rightarrow> dflt | Some v \<Rightarrow> v)"

text \<open>\<open>_get_user_context\<close>: one read of the memory store, with the default limit.\<close>

definition get_user_context :: "env \<Rightarrow> pystr \<Rightarrow> user_memories io" where
  "get_user_context env uid =
     io_bind (await (RetrieveMemories uid None) (retrieve_memories env uid None))
       (\<lambda>memories. io_return \<lparr>um_memories = memories, um_user_id = uid\<rparr>)"

text \<open>The two \<open>for\<close> statements of \<open>ResearchAgent.process\<close> that build \<open>context_str\<close>.\<close>

definition research_context_str :: "snippet list \<Rightarrow> snippet list \<Rightarrow> pystr" where
  "research_context_str news_results doc_results =
     lit ''Recent News Results:'' @ [10]
     @ concat (map (\<lambda>result. lit ''- '' @ dict_get result ''title'' (lit ''N/A'') @ lit '': ''
                      @ dict_get result ''snippet'' [] @ [10]) news_results)
     @ [10] @ lit ''Relevant Documents:'' @ [10]
     @ concat (map (\<lambda>doc. lit ''- '' @ take 200 (dict_get doc ''document'' []) @ lit ''...'' @ [10])
                 (take 3 doc_results))"

text \<open>
  \<open>process\<close> is an async generator. It is modelled with the consumer's loop body as its
  last argument: \<open>yield x\<close> runs the body of the \<open>async for\<close> on \<open>x\<close> and then resumes the
  generator; an exception raised in the generator leaves the \<open>async for\<close>.
\<close>

definition research_process ::
  "env \<Rightarrow> pystr \<Rightarrow> pystr \<Rightarrow> user_memories option \<Rightarrow> (pystr \<Rightarrow> unit io) \<Rightarrow> unit io" where
  "research_process env msg uid umem yield =
     io_bind (yield (banner ResearchAgent)) (\<lambda>_.
     io_bind (get_user_context env uid) (\<lambda>ctx.
     io_bind (await (SearchNews msg 3) (search_news env msg 3)) (\<lambda>news_results.
     io_bind (await (QueryDocuments msg) (query_documents env msg)) (\<lambda>doc_results.
     io_bind (await (Ainvoke (ResearchPrompt msg (research_context_str news_results doc_results) umem))
                (ainvoke env (ResearchPrompt msg (research_context_str news_results doc_results) umem)))
       (\<lambda>response.
     io_bind (yield response) (\<lambda>_.
     await_add_memory env
       \<lparr>mr_user_id = uid, mr_message = lit ''Researched: '' @ take 100 msg,
        mr_metadata = [(''domain'', JStr (lit ''research'')), (''query'', JStr msg)]\<rparr>))))))"

definition finance_process ::
  "env \<Rightarrow> pystr \<Rightarrow> pystr \<Rightarrow> user_memories option \<Rightarrow> (pystr \<Rightarrow> unit io) \<Rightarrow> unit io" where
  "finance_process env msg uid umem yield =
     io_bind (yield (banner FinanceAgent)) (\<lambda>_.
     io_bind (get_user_context env uid) (\<lambda>ctx.
     io_bind (await (SearchNews (msg @ lit '' financial news'') 5)
                (search_news env (msg @ lit '' financial news'') 5)) (\<lambda>financial_info.
     io_bind (await (Ainvoke (FinancePrompt msg financial_info umem))
                (ainvoke env (FinancePrompt msg financial_info umem))) (\<lambda>response.
     io_bind (yield response) (\<lambda>_.
     await_add_memory env
       \<lparr>mr_user_id = uid, mr_message = lit ''Financial Query: '' @ take 100 msg,
        mr_metadata = [(''domain'', JStr (lit ''finance'')), (''query'', JStr msg)]\<rparr>)))))"

definition travel_process ::
  "env \<Rightarrow> pystr \<Rightarrow> pystr \<Rightarrow> user_memories option \<Rightarrow> (pystr \<Rightarrow> unit io) \<Rightarrow> unit io" where
  "travel_process env msg uid umem yield =
     io_bind (yield (banner TravelAgent)) (\<lambda>_.
     io_bind (get_user_context env uid) (\<lambda>ctx.
     io_bind (await (Ainvoke (TravelPrompt msg umem)) (ainvoke env (TravelPrompt msg umem)))
       (\<lambda>response.
     io_bind (yield response) (\<lambda>_.
     await_add_memory env
       \<lparr>mr_user_id = uid, mr_message = lit ''Travel Interest: '' @ take 100 msg,
        mr_metadata = [(''domain'', JStr (lit ''travel'')), (''query'', JStr msg)]\<rparr>))))"

definition shopping_process ::
  "env \<Rightarrow> pystr \<Rightarrow> pystr \<Rightarrow> user_memories option \<Rightarrow> (pystr \<Rightarrow> unit io) \<Rightarrow> unit io" where
  "shopping_process env msg uid umem yield =
     io_bind (yield (banner ShoppingAgent)) (\<lambda>_.
     io_bind (get_user_context env uid) (\<lambda>ctx.
     io_bind (await (SearchNews (msg @ lit '' products reviews'') 5)
                (search_news env (msg @ lit '' products reviews'') 5)) (\<lambda>search_results.
     io_bind (await (Ainvoke (ShoppingPrompt msg search_results umem))
                (ainvoke env (ShoppingPrompt msg search_results umem))) (\<lambda>response.
     io_bind (yield response) (\<lambda>_.
     await_add_memory env
       \<lparr>mr_user_id = uid, mr_message = lit ''Shopping Interest: '' @ take 100 msg,
        mr_metadata = [(''domain'', JStr (lit ''shopping'')), (''query'', JStr msg)]\<rparr>)))))"

definition jobs_process ::
  "env \<Rightarrow> pystr \<Rightarrow> pystr \<Rightarrow> user_memories option \<Rightarrow> (pystr \<Rightarrow> unit io) \<Rightarrow> unit io" where
  "jobs_process env msg uid umem yield =
     io_bind (yield (banner JobsAgent)) (\<lambda>_.
     io_bind (get_user_context env uid) (\<lambda>ctx.
     io_bind (await (SearchJobs msg 5) (search_jobs env msg 5)) (\<lambda>jobs.
     io_bind (await (Ainvoke (JobsPrompt msg jobs umem)) (ainvoke env (JobsPrompt msg jobs umem)))
       (\<lambda>response.
     io_bind (yield response) (\<lambda>_.
     await_add_memory env
       \<lparr>mr_user_id = uid, mr_message = lit ''Job Search: '' @ take 100 msg,
        mr_metadata = [(''domain'', JStr (lit ''jobs'')), (''query'', JStr msg)]\<rparr>)))))"

definition recipes_process ::
  "env \<Rightarrow> pystr \<Rightarrow> pystr \<Rightarrow> user_memories option \<Rightarrow> (pystr \<Rightarrow> unit io) \<Rightarrow> unit io" where
  "recipes_process env msg uid umem yield =
     io_bind (yield (banner RecipesAgent)) (\<lambda>_.
     io_bind (get_user_context env uid) (\<lambda>ctx.
     io_bind (await (SearchRecipes msg 5) (search_recipes env msg 5)) (\<lambda>recipes.
     io_bind (await (Ainvoke (RecipesPrompt msg recipes umem))
                (ainvoke env (RecipesPrompt msg recipes umem))) (\<lambda>response.
     io_bind (yield response) (\<lambda>_.
     await_add_memory env
       \<lparr>mr_user_id = uid, mr_message = lit ''Recipe Interest: '' @ take 100 msg,
        mr_metadata = [(''domain'', JStr (lit ''recipes'')), (''query'', JStr msg)]\<rparr>)))))"

text \<open>Method dispatch on the agent instance.\<close>

fun process ::
  "env \<Rightarrow> agent \<Rightarrow> pystr \<Rightarrow> pystr \<Rightarrow> user_memories option \<Rightarrow> (pystr \<Rightarrow> unit io) \<Rightarrow> unit io" where
  "process env ResearchAgent = research_process env"
| "process env FinanceAgent = finance_process env"
| "process env TravelAgent = travel_process env"
| "process env ShoppingAgent = shopping_process env"
| "process env JobsAgent = jobs_process env"
| "process env RecipesAgent = recipes_process env"

definition AGENT_REGISTRY :: "pystr \<rightharpoonup> agent" where
  "AGENT_REGISTRY = map_of
     [(lit ''research'', ResearchAgent),
      (lit ''finance'', FinanceAgent),
      (lit ''travel'', TravelAgent),
      (lit ''shopping'', ShoppingAgent),
      (lit ''jobs'', JobsAgent),
      (lit ''recipes'', RecipesAgent)]"

text \<open>\<open>Settings.agent_domains\<close> of \<open>config/settings.py\<close>.\<close>

definition agent_domains :: "pystr list" where
  "agent_domains =
     [lit ''research'', lit ''finance'', lit ''travel'', lit ''shopping'', lit ''jobs'',
      lit ''recipes'']"

text \<open>
  The plainest consumer, \<open>async for chunk in agent.process(...)\<close> with a body that
  keeps the chunk: it shows the fragments of one \<open>process\<close> call, in the order yielded.
\<close>

definition collect :: "pystr \<Rightarrow> unit io" where
  "collect chunk s = (Inr (), s\<lparr>yielded := yielded s @ [chunk]\<rparr>)"

section \<open>The stream orchestrator (\<open>multi_agent_stream\<close> of \<open>backend.py\<close>)\<close>

text \<open>The body of the \<open>async for\<close>: accumulate the chunk, then yield its event.\<close>

definition content_event :: "pystr \<Rightarrow> pystr \<Rightarrow> pystr \<Rightarrow> jobject" where
  "content_event agent_name md chunk =
     [(''content'', JStr chunk), (''agent'', JStr agent_name), (''mode'', JStr md)]"

definition relay :: "pystr \<Rightarrow> pystr \<Rightarrow> pystr \<Rightarrow> unit io" where
  "relay agent_name md chunk s =
     (Inr (), s\<lparr>full_response := full_response s @ chunk,
               emitted := emitted s @ [content_event agent_name md chunk]\<rparr>)"

definition set_full_response :: "pystr \<Rightarrow> unit io" where
  "set_full_response v s = (Inr (), s\<lparr>full_response := v\<rparr>)"

definition get_full_response :: "pystr io" where
  "get_full_response s = (Inr (full_response s), s)"

text \<open>Step 1: the memory read, only when the store is enabled.\<close>

definition fetch_memories :: "env \<Rightarrow> MultiModalRequest \<Rightarrow> user_memories option io" where
  "fetch_memories env payload =
     (if mem0_enabled env
      then io_bind (await (RetrieveMemories (user_id payload) (Some 5))
                      (retrieve_memories env (user_id payload) (Some 5)))
             (\<lambda>memories. io_return (Some \<lparr>um_memories = memories, um_user_id = user_id payload\<rparr>))
      else io_return None)"

text \<open>\<open>payload.conversation_history or []\<close>.\<close>

definition history :: "MultiModalRequest \<Rightarrow> Message list" where
  "history payload = (case conversation_history payload of None \<Rightarrow> [] | Some h \<Rightarrow> h)"

text \<open>Step 2: the supervisor's routing decision.\<close>

definition route_step :: "env \<Rightarrow> MultiModalRequest \<Rightarrow> user_memories option \<Rightarrow> routing_decision io" where
  "route_step env payload umem =
     await (Route (message payload) (user_id payload) (history payload) umem)
       (route env (message payload) (user_id payload) (history payload) umem)"

text \<open>
  Step 3: \<open>AGENT_REGISTRY.get(recommended_agent)\<close>, and \<open>ValueError\<close> when there is no
  such agent.
\<close>

definition resolve_agent :: "pystr \<Rightarrow> agent io" where
  "resolve_agent name =
     (case AGENT_REGISTRY name of
        None \<Rightarrow> io_raise (Exception (lit ''Unknown agent: '' @ name))
      | Some agent \<Rightarrow> io_return agent)"

text \<open>Step 4: \<open>full_response = ""\<close>, then the \<open>async for\<close> over \<open>agent.process\<close>.\<close>

definition stream_agent ::
  "env \<Rightarrow> MultiModalRequest \<Rightarrow> user_memories option \<Rightarrow> pystr \<Rightarrow> agent \<Rightarrow> unit io" where
  "stream_agent env payload umem name agent =
     io_bind (set_full_response []) (\<lambda>_.
     process env agent (message payload) (user_id payload) umem (relay name (mode payload)))"

text \<open>
  Step 5: the orchestrator's own record, only when the store is enabled. The record is
  built from the routed agent's name, the request and \<open>len(full_response)\<close>.
\<close>

definition orchestrator_record :: "MultiModalRequest \<Rightarrow> pystr \<Rightarrow> pystr \<Rightarrow> memory_record" where
  "orchestrator_record payload name full =
     \<lparr>mr_user_id = user_id payload,
      mr_message = lit ''Used '' @ name @ lit '' agent: '' @ take 100 (message payload),
      mr_metadata = [(''agent'', JStr name),
                     (''mode'', JStr (mode payload)),
                     (''response_length'', JInt (int (length full)))]\<rparr>"

definition save_memory :: "env \<Rightarrow> MultiModalRequest \<Rightarrow> pystr \<Rightarrow> unit io" where
  "save_memory env payload name =
     (if mem0_enabled env
      then io_bind get_full_response (\<lambda>full.
           await_add_memory env (orchestrator_record payload name full))
      else io_return ())"

text \<open>The \<open>try\<close> block of \<open>event_generator\<close>, steps 1 to 5.\<close>

definition try_block :: "env \<Rightarrow> MultiModalRequest \<Rightarrow> unit io" where
  "try_block env payload =
     io_bind (fetch_memories env payload) (\<lambda>umem.
     io_bind (route_step env payload umem) (\<lambda>decision.
     io_bind (resolve_agent (recommended_agent decision)) (\<lambda>agent.
     io_bind (stream_agent env payload umem (recommended_agent decision) agent) (\<lambda>_.
     save_memory env payload (recommended_agent decision)))))"

text \<open>The \<open>except Exception\<close> handler yields one error event.\<close>

definition error_event :: "exn \<Rightarrow> jobject" where
  "error_event e = [(''error'', JStr (str e)), (''content'', JStr (lit ''Error: '' @ str e))]"

definition event_generator :: "env \<Rightarrow> MultiModalRequest \<Rightarrow> state \<Rightarrow> state" where
  "event_generator env payload s =
     (case try_block env payload s of
        (Inr u, s') \<Rightarrow> s'
      | (Inl e, s') \<Rightarrow> s'\<lparr>emitted := emitted s' @ [error_event e]\<rparr>)"

text \<open>A request starts with nothing emitted and nothing called; the store holds \<open>st\<close>.\<close>

definition start :: "memory_record list \<Rightarrow> state" where
  "start st = \<lparr>emitted = [], store = st, calls = [], full_response = [], yielded = []\<rparr>"

section \<open>The completion service (\<open>services/llm_service.py\<close>)\<close>

text \<open>
  A streamed chunk and a complete response are represented by their \<open>choices\<close>: for each
  choice its \<open>delta.content\<close> or \<open>message.content\<close>, \<open>None\<close> when it has none.
\<close>

type_synonym choices = "pystr option list"

text \<open>
  The test \<open>x.choices and x.choices[0].<...>.content\<close>: the content of the first choice,
  when there is a choice and its content is a non-empty string.
\<close>

definition first_content :: "choices \<Rightarrow> pystr option" where
  "first_content cs =
     (case cs of
        [] \<Rightarrow> None
      | c # rest \<Rightarrow> (case c of None \<Rightarrow> None | Some t \<Rightarrow> if t = [] then None else Some t))"

text \<open>
  The provider behind \<open>client.chat.completions.create\<close> is a parameter: with
  \<open>stream=True\<close> the call raises or returns a stream, which delivers chunks and then
  ends or breaks with an exception; with \<open>stream=False\<close> it raises or returns a response.
  Model, temperature and token limit are the same in both calls.
\<close>

record chunk_stream =
  chunks :: "choices list"
  broken :: "exn option"

record client =
  create_stream :: "Message list \<Rightarrow> exn + chunk_stream"
  create :: "Message list \<Rightarrow> exn + choices"

text \<open>A request sent to the provider: its messages and its \<open>stream\<close> flag.\<close>

datatype request = Create "Message list" bool

text \<open>
  What a consumer that drains \<open>stream_chat_completion\<close> sees: the fragments yielded, the
  exception that ended the generator if one did, and the requests sent meanwhile.
\<close>

record generation =
  gen_yielded :: "pystr list"
  gen_raised :: "exn option"
  gen_requests :: "request list"

text \<open>The \<open>async for\<close> over the stream: a chunk with content is yielded, others are skipped.\<close>

fun relay_chunks :: "choices list \<Rightarrow> pystr list" where
  "relay_chunks [] = []"
| "relay_chunks (chunk # rest) =
     (case first_content chunk of
        None \<Rightarrow> relay_chunks rest
      | Some t \<Rightarrow> t # relay_chunks rest)"

text \<open>
  The \<open>except Exception\<close> branch, entered after \<open>sofar\<close> has been yielded: one request
  without streaming; its exception is not caught.
\<close>

definition non_streaming :: "client \<Rightarrow> Message list \<Rightarrow> pystr list \<Rightarrow> generation" where
  "non_streaming cl openai_messages sofar =
     (case create cl openai_messages of
        Inl e \<Rightarrow>
          \<lparr>gen_yielded = sofar, gen_raised = Some e,
           gen_requests = [Create openai_messages True, Create openai_messages False]\<rparr>
      | Inr response \<Rightarrow>
          \<lparr>gen_yielded = sofar @ (case first_content response of None \<Rightarrow> [] | Some t \<Rightarrow> [t]),
           gen_raised = None,
           gen_requests = [Create openai_messages True, Create openai_messages False]\<rparr>)"

definition stream_chat_completion :: "client \<Rightarrow> Message list \<Rightarrow> pystr \<Rightarrow> generation" where
  "stream_chat_completion cl messages system_prompt =
     (let openai_messages = \<lparr>role = lit ''system'', content = system_prompt\<rparr> # messages in
      case create_stream cl openai_messages of
        Inl e \<Rightarrow> non_streaming cl openai_messages []
      | Inr stream \<Rightarrow>
          (case broken stream of
             None \<Rightarrow>
               \<lparr>gen_yielded = relay_chunks (chunks stream), gen_raised = None,
                gen_requests = [Create openai_messages True]\<rparr>
           | Some e \<Rightarrow> non_streaming cl openai_messages (relay_chunks (chunks stream))))"


section \<open>The legacy endpoint (\<open>llm_stream\<close> of \<open>backend.py\<close>)\<close>

datatype http_response =
    HTTPException nat pystr
  | StreamingResponse "jobject list" "request list"

text \<open>The loop over \<open>reversed(messages)\<close> that stops at the first message of the user.\<close>

fun find_user :: "Message list \<Rightarrow> pystr option" where
  "find_user [] = None"
| "find_user (m # rest) = (if role m = lit ''user'' then Some (content m) else find_user rest)"

definition legacy_system_prompt :: pystr where
  "legacy_system_prompt =
     lit ''You are a helpful AI assistant. When provided with relevant information or context below, ''
     @ [10] @ lit ''use it to answer the user'' @ [39]
     @ lit ''s question accurately and completely. Always use the information ''
     @ [10] @ lit ''provided to give thorough, detailed answers. Be conversational and friendly while being informative.''
     @ [10] @ lit ''If the context contains the answer, state it clearly and add relevant details from the context.''"

text \<open>
  The events of the legacy generator: one per non-empty chunk, and one more, with the
  error text as its content, when the service raised.
\<close>

definition legacy_event :: "pystr \<Rightarrow> jobject" where
  "legacy_event c = [(''content'', JStr c)]"

definition legacy_events :: "generation \<Rightarrow> jobject list" where
  "legacy_events g =
     map legacy_event (filter (\<lambda>chunk. chunk \<noteq> []) (gen_yielded g))
     @ (case gen_raised g of
          None \<Rightarrow> []
        | Some e \<Rightarrow> [legacy_event (lit ''Error: '' @ str e)])"

text \<open>
  The handler: two checks that raise \<open>HTTPException\<close> with status 400, then the streaming
  response, whose generator sends all the messages to the completion service. The
  response is given with the requests its generator sends to the provider.
\<close>

definition llm_stream :: "client \<Rightarrow> Message list \<Rightarrow> http_response" where
  "llm_stream cl messages =
     (if messages = [] then HTTPException 400 (lit ''No messages provided'')
      else
        (let user_message = find_user (rev messages) in
         if user_message = None \<or> user_message = Some []
         then HTTPException 400 (lit ''No user message found'')
         else StreamingResponse
                (legacy_events (stream_chat_completion cl messages legacy_system_prompt))
                (gen_requests (stream_chat_completion cl messages legacy_system_prompt))))"

section \<open>Reading a run\<close>

text \<open>The exception a logged call raised, if it raised.\<close>

fun failure :: "exn + 'a \<Rightarrow> exn option" where
  "failure (Inl e) = Some e"
| "failure (Inr x) = None"

fun raised :: "call \<Rightarrow> exn option" where
  "raised (RetrieveMemories u l r) = failure r"
| "raised (Route m u h um r) = failure r"
| "raised (SearchNews q n r) = failure r"
| "raised (SearchJobs q n r) = failure r"
| "raised (SearchRecipes q n r) = failure r"
| "raised (QueryDocuments q r) = failure r"
| "raised (Ainvoke p r) = failure r"
| "raised (AddMemory mr r) = failure r"

text \<open>The calls to a tool provider: news, jobs, recipes and document search.\<close>

fun is_tool_call :: "call \<Rightarrow> bool" where
  "is_tool_call (SearchNews q n r) = True"
| "is_tool_call (SearchJobs q n r) = True"
| "is_tool_call (SearchRecipes q n r) = True"
| "is_tool_call (QueryDocuments q r) = True"
| "is_tool_call c = False"





text \<open>
  The record each agent appends after its last fragment: a label, the first 100
  characters of the message, and the agent's domain and the query as metadata.
\<close>

fun memory_label :: "agent \<Rightarrow> pystr" where
  "memory_label ResearchAgent = lit ''Researched: ''"
| "memory_label FinanceAgent = lit ''Financial Query: ''"
| "memory_label TravelAgent = lit ''Travel Interest: ''"
| "memory_label ShoppingAgent = lit ''Shopping Interest: ''"
| "memory_label JobsAgent = lit ''Job Search: ''"
| "memory_label RecipesAgent = lit ''Recipe Interest: ''"

definition agent_record :: "agent \<Rightarrow> pystr \<Rightarrow> pystr \<Rightarrow> memory_record" where
  "agent_record ag msg uid =
     \<lparr>mr_user_id = uid, mr_message = memory_label ag @ take 100 msg,
      mr_metadata = [(''domain'', JStr (domain ag)), (''query'', JStr msg)]\<rparr>"

section \<open>A concrete request\<close>

text \<open>
  A request for which every collaborator answers: the store is enabled and empty, the
  supervisor routes to \<open>research\<close>, the tools find nothing, and the completion is
  \<open>ok\<close>. Failures are obtained by replacing one collaborator.
\<close>

definition sample_env :: env where
  "sample_env =
     \<lparr>mem0_enabled = True,
      retrieve_memories = (\<lambda>uid limit. Inr []),
      add_memory = (\<lambda>mr. Inr ()),
      route = (\<lambda>msg uid hist umem.
                 Inr \<lparr>recommended_agent = lit ''research'', classified_domain = lit ''research'',
                      decision_context = []\<rparr>),
      search_news = (\<lambda>q n. Inr []),
      search_jobs = (\<lambda>q n. Inr []),
      search_recipes = (\<lambda>q n. Inr []),
      query_documents = (\<lambda>q. Inr []),
      ainvoke = (\<lambda>p. Inr (lit ''ok''))\<rparr>"

text \<open>A provider that refuses to stream and answers \<open>hello\<close> without streaming.\<close>

definition sample_client :: client where
  "sample_client =
     \<lparr>create_stream = (\<lambda>msgs. Inl (Exception (lit ''stream refused''))),
      create = (\<lambda>msgs. Inr [Some (lit ''hello'')])\<rparr>"

definition sample_request :: MultiModalRequest where
  "sample_request =
     \<lparr>user_id = lit ''u1'', session_id = lit ''session-u1'', message = lit ''hi'',
      mode = lit ''text'', conversation_history = None\<rparr>"

section \<open>Running a computation step by step\<close>

lemmas io_defs = io_bind_def io_return_def io_raise_def await_def await_add_memory_def
  get_user_context_def set_full_response_def get_full_response_def
lemmas process_defs = research_process_def finance_process_def travel_process_def
  shopping_process_def jobs_process_def recipes_process_def

lemma io_bindE:
  assumes "io_bind m f s = (r, s')"
  obtains (raised) e where "m s = (Inl e, s')" "r = Inl e"
  | (returned) x s1 where "m s = (Inr x, s1)" "f x s1 = (r, s')"
  using assms by (auto simp: io_bind_def split: prod.splits sum.splits)

lemma fetch_memories_effect:
  assumes "fetch_memories env payload s = (r, s')"
  shows "(\<not> mem0_enabled env \<and> r = Inr None \<and> s' = s) \<or>
     (mem0_enabled env \<and> (\<exists>e. r = Inl e
        \<and> s' = s\<lparr>calls := calls s @ [RetrieveMemories (user_id payload) (Some 5) (Inl e)]\<rparr>)) \<or>
     (mem0_enabled env \<and> (\<exists>ms. r = Inr (Some \<lparr>um_memories = ms, um_user_id = user_id payload\<rparr>)
        \<and> s' = s\<lparr>calls := calls s @ [RetrieveMemories (user_id payload) (Some 5) (Inr ms)]\<rparr>))"
proof (cases "mem0_enabled env")
  case False
  with assms show ?thesis by (auto simp: fetch_memories_def io_return_def)
next
  case True
  show ?thesis
  proof (cases "retrieve_memories env (user_id payload) (Some 5)")
    case (Inl e)
    with True assms show ?thesis
      by (auto simp: fetch_memories_def io_bind_def await_def)
  next
    case (Inr ms)
    with True assms show ?thesis
      by (auto simp: fetch_memories_def io_bind_def await_def io_return_def)
  qed
qed

lemma route_step_effect:
  "route_step env payload um s = (r, s') \<Longrightarrow>
   s' = s\<lparr>calls := calls s @ [Route (message payload) (user_id payload) (history payload) um r]\<rparr>"
  by (auto simp: route_step_def await_def)

lemma resolve_agent_effect:
  "resolve_agent name s = (r, s') \<Longrightarrow>
    s' = s \<and> (case AGENT_REGISTRY name of None \<Rightarrow> r = Inl (Exception (lit ''Unknown agent: '' @ name))
       | Some ag \<Rightarrow> r = Inr ag)"
  by (auto simp: resolve_agent_def io_defs split: option.splits)

lemma await_add_memory_raises:
  "add_memory env mr = Inl e \<Longrightarrow>
   await_add_memory env mr s = (Inl e, s\<lparr>calls := calls s @ [AddMemory mr (Inl e)]\<rparr>)"
  by (simp add: await_add_memory_def)

lemma await_add_memory_returns:
  "add_memory env mr = Inr u \<Longrightarrow>
   await_add_memory env mr s
     = (Inr (), s\<lparr>store := store s @ [mr], calls := calls s @ [AddMemory mr (Inr ())]\<rparr>)"
  by (simp add: await_add_memory_def)

lemma await_add_memory_effect:
  assumes "await_add_memory env mr s = (r, s')"
  shows "(\<exists>e. add_memory env mr = Inl e \<and> r = Inl e
          \<and> s' = s\<lparr>calls := calls s @ [AddMemory mr (Inl e)]\<rparr>) \<or>
     (add_memory env mr = Inr () \<and> r = Inr ()
          \<and> s' = s\<lparr>store := store s @ [mr], calls := calls s @ [AddMemory mr (Inr ())]\<rparr>)"
proof (cases "add_memory env mr")
  case (Inl e)
  from await_add_memory_raises[OF Inl, of s] assms
  have "r = Inl e" "s' = s\<lparr>calls := calls s @ [AddMemory mr (Inl e)]\<rparr>"
    by simp_all
  with Inl show ?thesis by blast
next
  case (Inr u)
  from await_add_memory_returns[OF Inr, of s] assms
  have "r = Inr ()" "s' = s\<lparr>store := store s @ [mr], calls := calls s @ [AddMemory mr (Inr ())]\<rparr>"
    by simp_all
  moreover from Inr have "add_memory env mr = Inr ()" by simp
  ultimately show ?thesis by blast
qed

lemma save_memory_effect:
  assumes "save_memory env payload name s = (r, s')"
  shows "(\<not> mem0_enabled env \<and> r = Inr () \<and> s' = s) \<or>
     (mem0_enabled env \<and> (\<exists>e. r = Inl e \<and>
        s' = s\<lparr>calls := calls s @ [AddMemory (orchestrator_record payload name (full_response s)) (Inl e)]\<rparr>)) \<or>
     (mem0_enabled env \<and> r = Inr () \<and>
        s' = s\<lparr>store := store s @ [orchestrator_record payload name (full_response s)],
               calls := calls s @ [AddMemory (orchestrator_record payload name (full_response s)) (Inr ())]\<rparr>)"
proof (cases "mem0_enabled env")
  case False
  with assms show ?thesis by (simp add: save_memory_def io_return_def)
next
  case True
  with assms have "await_add_memory env (orchestrator_record payload name (full_response s)) s = (r, s')"
    by (simp add: save_memory_def io_bind_def get_full_response_def)
  from await_add_memory_effect[OF this] True show ?thesis by blast
qed

lemma fetch_memories_returned:
  assumes "fetch_memories env payload s = (Inr um, s1)"
  shows "emitted s1 = emitted s" "store s1 = store s" "full_response s1 = full_response s"
    "yielded s1 = yielded s"
    "(\<not> mem0_enabled env \<and> calls s1 = calls s) \<or>
     (mem0_enabled env \<and> (\<exists>ms. calls s1 = calls s @ [RetrieveMemories (user_id payload) (Some 5) (Inr ms)]))"
  using fetch_memories_effect[OF assms] by auto

lemma fetch_memories_raised:
  assumes "fetch_memories env payload s = (Inl e, s1)"
  shows "mem0_enabled env"
    "s1 = s\<lparr>calls := calls s @ [RetrieveMemories (user_id payload) (Some 5) (Inl e)]\<rparr>"
  using fetch_memories_effect[OF assms] by auto

lemma stream_agent_unfold:
  "stream_agent env payload um name ag s
     = process env ag (message payload) (user_id payload) um (relay name (mode payload))
         (s\<lparr>full_response := []\<rparr>)"
  by (simp add: stream_agent_def io_bind_def set_full_response_def)

lemma try_block_cases:
  assumes "try_block env payload s = (r, s')"
  obtains (fetch_failed) e where "fetch_memories env payload s = (Inl e, s')" "r = Inl e"
  | (route_failed) um s1 e where "fetch_memories env payload s = (Inr um, s1)"
      "route_step env payload um s1 = (Inl e, s')" "r = Inl e"
  | (unknown_agent) um s1 d s2 e where "fetch_memories env payload s = (Inr um, s1)"
      "route_step env payload um s1 = (Inr d, s2)"
      "resolve_agent (recommended_agent d) s2 = (Inl e, s')" "r = Inl e"
  | (agent_failed) um s1 d s2 ag s3 e where "fetch_memories env payload s = (Inr um, s1)"
      "route_step env payload um s1 = (Inr d, s2)"
      "resolve_agent (recommended_agent d) s2 = (Inr ag, s3)"
      "stream_agent env payload um (recommended_agent d) ag s3 = (Inl e, s')" "r = Inl e"
  | (streamed) um s1 d s2 ag s3 s4 where "fetch_memories env payload s = (Inr um, s1)"
      "route_step env payload um s1 = (Inr d, s2)"
      "resolve_agent (recommended_agent d) s2 = (Inr ag, s3)"
      "stream_agent env payload um (recommended_agent d) ag s3 = (Inr (), s4)"
      "save_memory env payload (recommended_agent d) s4 = (r, s')"
proof -
  from assms have b1: "io_bind (fetch_memories env payload) (\<lambda>umem.
     io_bind (route_step env payload umem) (\<lambda>decision.
     io_bind (resolve_agent (recommended_agent decision)) (\<lambda>agent.
     io_bind (stream_agent env payload umem (recommended_agent decision) agent) (\<lambda>_.
     save_memory env payload (recommended_agent decision))))) s = (r, s')"
    by (simp add: try_block_def)
  from b1 show thesis
  proof (cases rule: io_bindE)
    case (raised e)
    then show thesis by (rule fetch_failed)
  next
    case (returned um s1)
    from returned(2) show thesis
    proof (cases rule: io_bindE)
      case (raised e)
      with returned(1) show thesis by (rule route_failed)
    next
      case inner: (returned d s2)
      from inner(2) show thesis
      proof (cases rule: io_bindE)
        case (raised e)
        with returned(1) inner(1) show thesis by (rule unknown_agent)
      next
        case res: (returned ag s3)
        from res(2) show thesis
        proof (cases rule: io_bindE)
          case (raised e)
          with returned(1) inner(1) res(1) show thesis by (rule agent_failed)
        next
          case str: (returned u s4)
          with returned(1) inner(1) res(1) show thesis by (auto intro: streamed)
        qed
      qed
    qed
  qed
qed

lemma process_relay_emitted:
  "process env ag msg uid um (relay a md) s = (r, s') \<Longrightarrow>
   (emitted s' = emitted s @ [content_event a md (banner ag)] \<and> full_response s' = full_response s @ banner ag \<and> r \<noteq> Inr ()) \<or>
   (\<exists>resp. emitted s' = emitted s @ [content_event a md (banner ag), content_event a md resp]
     \<and> full_response s' = full_response s @ banner ag @ resp)"
  apply (cases ag)
  apply (auto simp: io_defs process_defs relay_def split: sum.splits prod.splits simp del: banner.simps)
  done

section \<open>One call of \<open>process\<close>\<close>





lemma process_collect_tool_raised:
  "process env ag msg uid um collect (start st) = (r, s') \<Longrightarrow>
   c \<in> set (calls s') \<Longrightarrow> is_tool_call c \<Longrightarrow> raised c = Some e \<Longrightarrow>
   r = Inl e \<and> yielded s' = [banner ag] \<and> store s' = st \<and> last (calls s') = c"
  apply (cases ag)
  apply (auto simp: io_defs process_defs collect_def start_def split: sum.splits prod.splits simp del: banner.simps)
  done

section \<open>The outcomes of a request\<close>

lemma registry_keys:
  "AGENT_REGISTRY name = Some ag \<Longrightarrow> name \<in> set agent_domains \<and> name = domain ag"
  by (auto simp: AGENT_REGISTRY_def agent_domains_def split: if_splits)

lemma dom_registry: "dom AGENT_REGISTRY = set agent_domains"
  by (auto simp: AGENT_REGISTRY_def agent_domains_def split: if_splits)

lemma event_generator_result:
  "try_block env payload s = (r, s') \<Longrightarrow>
   event_generator env payload s
     = (case r of Inl e \<Rightarrow> s'\<lparr>emitted := emitted s' @ [error_event e]\<rparr> | Inr u \<Rightarrow> s')"
  by (simp add: event_generator_def split: sum.splits)

lemma before_streaming:
  assumes "fetch_memories env payload s = (Inr um, s1)"
    and "route_step env payload um s1 = (r, s2)"
  shows "emitted s2 = emitted s" "store s2 = store s"
    "\<exists>pre. calls s2 = calls s @ pre
         @ [Route (message payload) (user_id payload) (history payload) um r]
       \<and> (pre = [] \<or> (\<exists>ms. pre = [RetrieveMemories (user_id payload) (Some 5) (Inr ms)]))"
  using fetch_memories_returned[OF assms(1)] route_step_effect[OF assms(2)]
  by auto

lemma event_generator_cases:
  fixes env payload s
  defines "R \<equiv> event_generator env payload s"
  defines "rt \<equiv> Route (message payload) (user_id payload) (history payload)"
  obtains
    (fetch_failed) e where "fst (try_block env payload s) = Inl e"
      "emitted R = emitted s @ [error_event e]" "store R = store s"
      "calls R = calls s @ [RetrieveMemories (user_id payload) (Some 5) (Inl e)]"
  | (route_failed) pre um e where "fst (try_block env payload s) = Inl e"
      "emitted R = emitted s @ [error_event e]" "store R = store s"
      "calls R = calls s @ pre @ [rt um (Inl e)]"
      "pre = [] \<or> (\<exists>ms. pre = [RetrieveMemories (user_id payload) (Some 5) (Inr ms)])"
  | (unknown_agent) pre um d where
      "fst (try_block env payload s) = Inl (Exception (lit ''Unknown agent: '' @ recommended_agent d))"
      "AGENT_REGISTRY (recommended_agent d) = None"
      "emitted R = emitted s @ [error_event (Exception (lit ''Unknown agent: '' @ recommended_agent d))]"
      "store R = store s"
      "calls R = calls s @ pre @ [rt um (Inr d)]"
      "pre = [] \<or> (\<exists>ms. pre = [RetrieveMemories (user_id payload) (Some 5) (Inr ms)])"
  | (agent_failed) pre um d ag s3 s4 e where "fst (try_block env payload s) = Inl e"
      "AGENT_REGISTRY (recommended_agent d) = Some ag"
      "emitted s3 = emitted s" "store s3 = store s" "full_response s3 = []"
      "calls s3 = calls s @ pre @ [rt um (Inr d)]"
      "pre = [] \<or> (\<exists>ms. pre = [RetrieveMemories (user_id payload) (Some 5) (Inr ms)])"
      "process env ag (message payload) (user_id payload) um
         (relay (recommended_agent d) (mode payload)) s3 = (Inl e, s4)"
      "R = s4\<lparr>emitted := emitted s4 @ [error_event e]\<rparr>"
  | (save_failed) pre um d ag s3 s4 e where "fst (try_block env payload s) = Inl e"
      "mem0_enabled env"
      "AGENT_REGISTRY (recommended_agent d) = Some ag"
      "emitted s3 = emitted s" "store s3 = store s" "full_response s3 = []"
      "calls s3 = calls s @ pre @ [rt um (Inr d)]"
      "pre = [] \<or> (\<exists>ms. pre = [RetrieveMemories (user_id payload) (Some 5) (Inr ms)])"
      "process env ag (message payload) (user_id payload) um
         (relay (recommended_agent d) (mode payload)) s3 = (Inr (), s4)"
      "R = s4\<lparr>calls := calls s4 @ [AddMemory (orchestrator_record payload (recommended_agent d) (full_response s4)) (Inl e)],
             emitted := emitted s4 @ [error_event e]\<rparr>"
  | (completed) pre um d ag s3 s4 where "fst (try_block env payload s) = Inr ()"
      "AGENT_REGISTRY (recommended_agent d) = Some ag"
      "emitted s3 = emitted s" "store s3 = store s" "full_response s3 = []"
      "calls s3 = calls s @ pre @ [rt um (Inr d)]"
      "pre = [] \<or> (\<exists>ms. pre = [RetrieveMemories (user_id payload) (Some 5) (Inr ms)])"
      "process env ag (message payload) (user_id payload) um
         (relay (recommended_agent d) (mode payload)) s3 = (Inr (), s4)"
      "R = (if mem0_enabled env
            then s4\<lparr>store := store s4 @ [orchestrator_record payload (recommended_agent d) (full_response s4)],
                    calls := calls s4 @ [AddMemory (orchestrator_record payload (recommended_agent d) (full_response s4)) (Inr ())]\<rparr>
            else s4)"
proof -
  obtain r s' where tb: "try_block env payload s = (r, s')"
    by (cases "try_block env payload s")
  note R = event_generator_result[OF tb, folded R_def]
  from tb show thesis
  proof (cases rule: try_block_cases)
    case (fetch_failed e)
    from fetch_memories_raised[OF fetch_failed(1)] fetch_failed(2) R tb
    show thesis by (intro that(1)[of e]) auto
  next
    case (route_failed um s1 e)
    from before_streaming[OF route_failed(1,2)] route_failed(3) R tb
    show thesis by (elim exE conjE, intro that(2)[of e _ um]) (auto simp: rt_def)
  next
    case (unknown_agent um s1 d s2 e)
    from resolve_agent_effect[OF unknown_agent(3)]
    have reg: "AGENT_REGISTRY (recommended_agent d) = None"
      and e: "e = Exception (lit ''Unknown agent: '' @ recommended_agent d)" and s': "s' = s2"
      by (auto split: option.splits)
    from before_streaming[OF unknown_agent(1,2)] unknown_agent(4) R tb reg e s'
    show thesis by (elim exE conjE, intro that(3)[of d _ um]) (auto simp: rt_def)
  next
    case (agent_failed um s1 d s2 ag s3 e)
    from resolve_agent_effect[OF agent_failed(3)]
    have reg: "AGENT_REGISTRY (recommended_agent d) = Some ag" and s3: "s3 = s2"
      by (auto split: option.splits)
    let ?s3 = "s3\<lparr>full_response := []\<rparr>"
    from agent_failed(4) have pr: "process env ag (message payload) (user_id payload) um
         (relay (recommended_agent d) (mode payload)) ?s3 = (Inl e, s')"
      by (simp add: stream_agent_unfold)
    from before_streaming[OF agent_failed(1,2)] agent_failed(5) R tb reg s3 pr
    show thesis
      by (elim exE conjE, intro that(4)[of e d ag ?s3 _ um s']) (auto simp: rt_def)
  next
    case (streamed um s1 d s2 ag s3 s4)
    from resolve_agent_effect[OF streamed(3)]
    have reg: "AGENT_REGISTRY (recommended_agent d) = Some ag" and s3: "s3 = s2"
      by (auto split: option.splits)
    let ?s3 = "s3\<lparr>full_response := []\<rparr>"
    from streamed(4) have pr: "process env ag (message payload) (user_id payload) um
         (relay (recommended_agent d) (mode payload)) ?s3 = (Inr (), s4)"
      by (simp add: stream_agent_unfold)
    from save_memory_effect[OF streamed(5)]
    consider (off) "\<not> mem0_enabled env" "r = Inr ()" "s' = s4"
      | (bad) e where "mem0_enabled env" "r = Inl e"
          "s' = s4\<lparr>calls := calls s4 @ [AddMemory (orchestrator_record payload (recommended_agent d) (full_response s4)) (Inl e)]\<rparr>"
      | (good) "mem0_enabled env" "r = Inr ()"
          "s' = s4\<lparr>store := store s4 @ [orchestrator_record payload (recommended_agent d) (full_response s4)],
               calls := calls s4 @ [AddMemory (orchestrator_record payload (recommended_agent d) (full_response s4)) (Inr ())]\<rparr>"
      by blast
    then show thesis
    proof cases
      case off
      from before_streaming[OF streamed(1,2)] off R tb reg s3 pr
      show thesis
        by (elim exE conjE, intro that(6)[of d ag ?s3 _ um s4]) (auto simp: rt_def)
    next
      case (bad e)
      from before_streaming[OF streamed(1,2)] bad R tb reg s3 pr
      show thesis
        by (elim exE conjE, intro that(5)[of e d ag ?s3 _ um s4]) (auto simp: rt_def)
    next
      case good
      from before_streaming[OF streamed(1,2)] good R tb reg s3 pr
      show thesis
        by (elim exE conjE, intro that(6)[of d ag ?s3 _ um s4]) (auto simp: rt_def)
    qed
  qed
qed

section \<open>The concrete request, evaluated\<close>

lemmas run_defs = event_generator_def try_block_def fetch_memories_def route_step_def
  resolve_agent_def stream_agent_def save_memory_def relay_def collect_def start_def history_def
  AGENT_REGISTRY_def orchestrator_record_def

lemma sample_run:
  "event_generator sample_env sample_request (start [])
   = \<lparr>emitted = [content_event (lit ''research'') (lit ''text'') (banner ResearchAgent),
                 content_event (lit ''research'') (lit ''text'') (lit ''ok'')],
      store = [agent_record ResearchAgent (lit ''hi'') (lit ''u1''),
               orchestrator_record sample_request (lit ''research'') (banner ResearchAgent @ lit ''ok'')],
      calls = [RetrieveMemories (lit ''u1'') (Some 5) (Inr []),
               Route (lit ''hi'') (lit ''u1'') [] (Some \<lparr>um_memories = [], um_user_id = lit ''u1''\<rparr>)
                 (Inr \<lparr>recommended_agent = lit ''research'', classified_domain = lit ''research'',
                      decision_context = []\<rparr>),
               RetrieveMemories (lit ''u1'') None (Inr []),
               SearchNews (lit ''hi'') 3 (Inr []),
               QueryDocuments (lit ''hi'') (Inr []),
               Ainvoke (ResearchPrompt (lit ''hi'') (research_context_str [] [])
                          (Some \<lparr>um_memories = [], um_user_id = lit ''u1''\<rparr>)) (Inr (lit ''ok'')),
               AddMemory (agent_record ResearchAgent (lit ''hi'') (lit ''u1'')) (Inr ()),
               AddMemory (orchestrator_record sample_request (lit ''research'')
                            (banner ResearchAgent @ lit ''ok'')) (Inr ())],
      full_response = banner ResearchAgent @ lit ''ok'',
      yielded = []\<rparr>"
  by (simp add: run_defs io_defs research_process_def sample_env_def sample_request_def
        agent_record_def del: banner.simps)







lemma sample_process:
  "process sample_env ResearchAgent (lit ''hi'') (lit ''u1'') None collect (start [])
   = (Inr (),
      \<lparr>emitted = [],
       store = [agent_record ResearchAgent (lit ''hi'') (lit ''u1'')],
       calls = [RetrieveMemories (lit ''u1'') None (Inr []),
                SearchNews (lit ''hi'') 3 (Inr []),
                QueryDocuments (lit ''hi'') (Inr []),
                Ainvoke (ResearchPrompt (lit ''hi'') (research_context_str [] []) None)
                  (Inr (lit ''ok'')),
                AddMemory (agent_record ResearchAgent (lit ''hi'') (lit ''u1'')) (Inr ())],
       full_response = [],
       yielded = [banner ResearchAgent, lit ''ok'']\<rparr>)"
  by (simp add: io_defs research_process_def collect_def start_def sample_env_def
        agent_record_def del: banner.simps)

lemma search_down_process:
  "process (sample_env\<lparr>search_news := (\<lambda>q n. Inl (Exception (lit ''search down'')))\<rparr>)
     ResearchAgent (lit ''hi'') (lit ''u1'') None collect (start [])
   = (Inl (Exception (lit ''search down'')),
      \<lparr>emitted = [], store = [],
       calls = [RetrieveMemories (lit ''u1'') None (Inr []),
                SearchNews (lit ''hi'') 3 (Inl (Exception (lit ''search down'')))],
       full_response = [],
       yielded = [banner ResearchAgent]\<rparr>)"
  by (simp add: io_defs research_process_def collect_def start_def sample_env_def
        del: banner.simps)

section \<open>The legacy endpoint, step by step\<close>

lemma find_user_rev:
  "find_user (rev ms)
     = (case filter (\<lambda>m. role m = lit ''user'') ms of
          [] \<Rightarrow> None
        | m # rest \<Rightarrow> Some (content (last (m # rest))))"
proof (induction ms rule: rev_induct)
  case Nil
  show ?case by simp
next
  case (snoc x xs)
  then show ?case by (simp split: list.splits)
qed

lemma sample_generation:
  "stream_chat_completion sample_client ms sp
   = \<lparr>gen_yielded = [lit ''hello''], gen_raised = None,
      gen_requests = [Create (\<lparr>role = lit ''system'', content = sp\<rparr> # ms) True,
                      Create (\<lparr>role = lit ''system'', content = sp\<rparr> # ms) False]\<rparr>"
  by (simp add: stream_chat_completion_def non_streaming_def Let_def sample_client_def
        first_content_def lit_def)

section \<open>The claims about the stream orchestrator\<close>

subsection \<open>C1: the text that is persisted\<close>




subsection \<open>C2: how many records a completed request appends\<close>




subsection \<open>C3: a memory read that raises\<close>




subsection \<open>C5: a completion that raises\<close>



subsection \<open>C7: a routing decision outside the registry\<close>



subsection \<open>C8: the \<open>agent\<close> field\<close>

text \<open>
  Claim C8: for every request, every emitted event that carries an \<open>agent\<close> field carries
  a string that is a key of \<open>AGENT_REGISTRY\<close> and a member of \<open>Settings.agent_domains\<close>.
\<close>

theorem agent_field_in_domain_set:
  "\<forall>ev \<in> set (emitted (event_generator env payload (start st))).
     \<forall>v. map_of ev ''agent'' = Some v \<longrightarrow>
       (\<exists>a. v = JStr a \<and> a \<in> dom AGENT_REGISTRY \<and> a \<in> set agent_domains)"
proof (cases rule: event_generator_cases[of env payload "start st"])
  case (fetch_failed e)
  then show ?thesis by (simp add: start_def error_event_def)
next
  case (route_failed pre um e)
  then show ?thesis by (simp add: start_def error_event_def)
next
  case (unknown_agent pre um d)
  then show ?thesis by (simp add: start_def error_event_def)
next
  case (agent_failed pre um d ag s3 s4 e)
  from registry_keys[OF agent_failed(2)] agent_failed(2) have "recommended_agent d \<in> set agent_domains"
    "recommended_agent d \<in> dom AGENT_REGISTRY" by auto
  with process_relay_emitted[OF agent_failed(8)] agent_failed(3,9) show ?thesis
    by (auto simp: start_def error_event_def content_event_def)
next
  case (save_failed pre um d ag s3 s4 e)
  from registry_keys[OF save_failed(3)] save_failed(3) have "recommended_agent d \<in> set agent_domains"
    "recommended_agent d \<in> dom AGENT_REGISTRY" by auto
  with process_relay_emitted[OF save_failed(9)] save_failed(4,10) show ?thesis
    by (auto simp: start_def error_event_def content_event_def)
next
  case (completed pre um d ag s3 s4)
  from registry_keys[OF completed(2)] completed(2) have "recommended_agent d \<in> set agent_domains"
    "recommended_agent d \<in> dom AGENT_REGISTRY" by auto
  with process_relay_emitted[OF completed(8)] completed(3,9) show ?thesis
    by (auto simp: start_def error_event_def content_event_def)
qed

theorem agent_field_in_domain_set_witness:
  "content_event (lit ''research'') (lit ''text'') (lit ''ok'')
     \<in> set (emitted (event_generator sample_env sample_request (start [])))
   \<and> map_of (content_event (lit ''research'') (lit ''text'') (lit ''ok'')) ''agent''
       = Some (JStr (lit ''research''))
   \<and> lit ''research'' \<in> dom AGENT_REGISTRY \<and> lit ''research'' \<in> set agent_domains"
  using agent_field_in_domain_set[of sample_env sample_request "[]"]
  by (simp add: sample_run content_event_def)

section \<open>The claims about the domain agents\<close>

subsection \<open>C4: a tool provider that raises\<close>

text \<open>
  The claim C4 says that an agent whose tool search raises substitutes an empty result
  and goes on to the completion. In the research agent with a news search that raises,
  \<open>process\<close> raises after the status line and the completion is never called; with an
  empty news result it yields the completion as well.
\<close>

theorem tool_failure_counterexample:
  "search_news (sample_env\<lparr>search_news := (\<lambda>q n. Inl (Exception (lit ''search down'')))\<rparr>)
     (lit ''hi'') 3 = Inl (Exception (lit ''search down''))
   \<and> fst (process (sample_env\<lparr>search_news := (\<lambda>q n. Inl (Exception (lit ''search down'')))\<rparr>)
          ResearchAgent (lit ''hi'') (lit ''u1'') None collect (start []))
       = Inl (Exception (lit ''search down''))
   \<and> yielded (snd (process (sample_env\<lparr>search_news := (\<lambda>q n. Inl (Exception (lit ''search down'')))\<rparr>)
          ResearchAgent (lit ''hi'') (lit ''u1'') None collect (start [])))
       = [banner ResearchAgent]
   \<and> calls (snd (process (sample_env\<lparr>search_news := (\<lambda>q n. Inl (Exception (lit ''search down'')))\<rparr>)
          ResearchAgent (lit ''hi'') (lit ''u1'') None collect (start [])))
       = [RetrieveMemories (lit ''u1'') None (Inr []),
          SearchNews (lit ''hi'') 3 (Inl (Exception (lit ''search down'')))]
   \<and> yielded (snd (process (sample_env\<lparr>search_news := (\<lambda>q n. Inr [])\<rparr>)
          ResearchAgent (lit ''hi'') (lit ''u1'') None collect (start [])))
       = [banner ResearchAgent, lit ''ok'']"
proof -
  have "sample_env\<lparr>search_news := (\<lambda>q n. Inr [])\<rparr> = sample_env"
    by (simp add: sample_env_def)
  then show ?thesis
    by (simp add: search_down_process sample_process del: process.simps banner.simps)
qed

text \<open>
  Claim C4, as amended: for every \<open>process\<close> invocation of a domain agent in which a tool
  provider search call raises, the exception leaves \<open>process\<close>: the agent has yielded
  only its status line, the failed search is the last call it makes (no completion is
  requested), and it appends no record.
\<close>

theorem tool_failure_aborts_agent:
  assumes "process env ag msg uid umem collect (start st) = (r, s')"
    and "c \<in> set (calls s')" and "is_tool_call c" and "raised c = Some e"
  shows "r = Inl e \<and> yielded s' = [banner ag] \<and> store s' = st \<and> last (calls s') = c"
  using process_collect_tool_raised[OF assms] .

theorem tool_failure_aborts_agent_witness:
  "SearchNews (lit ''hi'') 3 (Inl (Exception (lit ''search down'')))
     \<in> set (calls (snd (process
          (sample_env\<lparr>search_news := (\<lambda>q n. Inl (Exception (lit ''search down'')))\<rparr>)
          ResearchAgent (lit ''hi'') (lit ''u1'') None collect (start []))))
   \<and> is_tool_call (SearchNews (lit ''hi'') 3 (Inl (Exception (lit ''search down''))))
   \<and> raised (SearchNews (lit ''hi'') 3 (Inl (Exception (lit ''search down''))))
       = Some (Exception (lit ''search down''))
   \<and> fst (process
          (sample_env\<lparr>search_news := (\<lambda>q n. Inl (Exception (lit ''search down'')))\<rparr>)
          ResearchAgent (lit ''hi'') (lit ''u1'') None collect (start []))
       = Inl (Exception (lit ''search down''))
   \<and> yielded (snd (process
          (sample_env\<lparr>search_news := (\<lambda>q n. Inl (Exception (lit ''search down'')))\<rparr>)
          ResearchAgent (lit ''hi'') (lit ''u1'') None collect (start [])))
       = [banner ResearchAgent]"
  using tool_failure_aborts_agent[of
      "sample_env\<lparr>search_news := (\<lambda>q n. Inl (Exception (lit ''search down'')))\<rparr>"
      ResearchAgent "lit ''hi''" "lit ''u1''" None "[]"
      "Inl (Exception (lit ''search down''))"
      "snd (process
          (sample_env\<lparr>search_news := (\<lambda>q n. Inl (Exception (lit ''search down'')))\<rparr>)
          ResearchAgent (lit ''hi'') (lit ''u1'') None collect (start []))"
      "SearchNews (lit ''hi'') 3 (Inl (Exception (lit ''search down'')))"
      "Exception (lit ''search down'')"]
  by (simp add: search_down_process del: process.simps banner.simps)

subsection \<open>C6: what an agent yields\<close>



section \<open>The claims about the completion service and the legacy endpoint\<close>

subsection \<open>C9: the fallback of \<open>stream_chat_completion\<close>\<close>



subsection \<open>C10: the checks of the legacy endpoint\<close>

text \<open>
  The claim C10 says that \<open>llm_stream\<close> answers 400 exactly when the list is empty or has
  no message of the user, and otherwise generates the completion from the content of
  the last message of the user. The request sent for a conversation of two messages
  holds both of them after the system prompt, and a list whose only message of the user
  has empty content is answered with 400.
\<close>

theorem legacy_stream_counterexample:
  "llm_stream sample_client
     [\<lparr>role = lit ''user'', content = lit ''a''\<rparr>, \<lparr>role = lit ''assistant'', content = lit ''b''\<rparr>]
   = StreamingResponse [legacy_event (lit ''hello'')]
       [Create [\<lparr>role = lit ''system'', content = legacy_system_prompt\<rparr>,
                \<lparr>role = lit ''user'', content = lit ''a''\<rparr>,
                \<lparr>role = lit ''assistant'', content = lit ''b''\<rparr>] True,
        Create [\<lparr>role = lit ''system'', content = legacy_system_prompt\<rparr>,
                \<lparr>role = lit ''user'', content = lit ''a''\<rparr>,
                \<lparr>role = lit ''assistant'', content = lit ''b''\<rparr>] False]
   \<and> llm_stream sample_client [\<lparr>role = lit ''user'', content = []\<rparr>]
       = HTTPException 400 (lit ''No user message found'')"
proof -
  have ne: "lit ''hello'' \<noteq> []" "lit ''a'' \<noteq> []" "lit ''assistant'' \<noteq> lit ''user''"
    by (simp_all add: lit_def)
  show ?thesis
    by (simp add: llm_stream_def sample_generation legacy_events_def ne)
qed

text \<open>
  Claim C10, as amended: \<open>llm_stream\<close> answers with status 400, before any stream is
  opened, when the message list is empty, when it has no message with role \<open>user\<close>, or
  when the content of its last message with role \<open>user\<close> is empty; otherwise it opens the
  stream, and the completion is requested from the system prompt followed by the whole
  message list, in order.
\<close>

theorem legacy_stream_requests:
  "llm_stream cl messages =
     (if messages = [] then HTTPException 400 (lit ''No messages provided'')
      else if filter (\<lambda>m. role m = lit ''user'') messages = []
              \<or> content (last (filter (\<lambda>m. role m = lit ''user'') messages)) = []
      then HTTPException 400 (lit ''No user message found'')
      else StreamingResponse
             (legacy_events (stream_chat_completion cl messages legacy_system_prompt))
             (gen_requests (stream_chat_completion cl messages legacy_system_prompt)))
   \<and> (\<exists>rest. gen_requests (stream_chat_completion cl messages legacy_system_prompt)
         = Create (\<lparr>role = lit ''system'', content = legacy_system_prompt\<rparr> # messages) True # rest)"
proof -
  have "\<exists>rest. gen_requests (stream_chat_completion cl messages legacy_system_prompt)
         = Create (\<lparr>role = lit ''system'', content = legacy_system_prompt\<rparr> # messages) True # rest"
    by (simp add: stream_chat_completion_def non_streaming_def Let_def
          split: sum.splits option.splits)
  moreover have "llm_stream cl messages =
     (if messages = [] then HTTPException 400 (lit ''No messages provided'')
      else if filter (\<lambda>m. role m = lit ''user'') messages = []
              \<or> content (last (filter (\<lambda>m. role m = lit ''user'') messages)) = []
      then HTTPException 400 (lit ''No user message found'')
      else StreamingResponse
             (legacy_events (stream_chat_completion cl messages legacy_system_prompt))
             (gen_requests (stream_chat_completion cl messages legacy_system_prompt)))"
    by (simp add: llm_stream_def find_user_rev Let_def split: list.splits)
  ultimately show ?thesis by simp
qed

theorem legacy_stream_requests_witness:
  "[\<lparr>role = lit ''user'', content = lit ''a''\<rparr>] \<noteq> []
   \<and> filter (\<lambda>m. role m = lit ''user'') [\<lparr>role = lit ''user'', content = lit ''a''\<rparr>] \<noteq> []
   \<and> content (last (filter (\<lambda>m. role m = lit ''user'') [\<lparr>role = lit ''user'', content = lit ''a''\<rparr>])) \<noteq> []
   \<and> llm_stream sample_client [\<lparr>role = lit ''user'', content = lit ''a''\<rparr>]
       = StreamingResponse [legacy_event (lit ''hello'')]
           [Create [\<lparr>role = lit ''system'', content = legacy_system_prompt\<rparr>,
                    \<lparr>role = lit ''user'', content = lit ''a''\<rparr>] True,
            Create [\<lparr>role = lit ''system'', content = legacy_system_prompt\<rparr>,
                    \<lparr>role = lit ''user'', content = lit ''a''\<rparr>] False]"
proof -
  have ne: "lit ''hello'' \<noteq> []" "lit ''a'' \<noteq> []"
    by (simp_all add: lit_def)
  from legacy_stream_requests[of sample_client "[\<lparr>role = lit ''user'', content = lit ''a''\<rparr>]"]
  show ?thesis
    by (simp add: sample_generation legacy_events_def ne)
qed

end
